theory Spec2Isabelle
  imports Complex_Main "HOL-Library.Word"
begin

section \<open>Machine values\<close>

text \<open>\<^verbatim>\<open>int\<close> is a 32-bit two's complement integer, \<^verbatim>\<open>uint16_t\<close> a 16-bit unsigned one.\<close>

type_synonym cint = "32 word"
type_synonym uint16 = "16 word"

text \<open>
  A \<^verbatim>\<open>double\<close>: a finite value, one of the two infinities, or a NaN. main.cc only copies
  doubles and compares them with \<^verbatim>\<open>>\<close>, so the finite values are kept as the real numbers
  they denote; a comparison with a NaN on either side is false.
\<close>

datatype dbl = Finite real | PosInf | NegInf | NaN

fun dgt :: "dbl \<Rightarrow> dbl \<Rightarrow> bool" where
  "dgt NaN y = False"
| "dgt x NaN = False"
| "dgt NegInf y = False"
| "dgt PosInf PosInf = False"
| "dgt PosInf y = True"
| "dgt (Finite a) PosInf = False"
| "dgt (Finite a) NegInf = True"
| "dgt (Finite a) (Finite b) = (b < a)"

text \<open>\<open>dle x y\<close> is \<^verbatim>\<open>x <= y\<close> on doubles (false when either side is a NaN).\<close>

fun dle :: "dbl \<Rightarrow> dbl \<Rightarrow> bool" where
  "dle NaN y = False"
| "dle x NaN = False"
| "dle NegInf y = True"
| "dle PosInf PosInf = True"
| "dle PosInf y = False"
| "dle (Finite a) PosInf = True"
| "dle (Finite a) NegInf = False"
| "dle (Finite a) (Finite b) = (a \<le> b)"

text \<open>
  A line written to \<^verbatim>\<open>std::cout\<close> is the list of the things streamed into it before
  \<^verbatim>\<open>std::endl\<close>: string literals, ints, doubles and sizes.
\<close>

datatype item = Str string | Num cint | Dbl dbl | Size nat

type_synonym line = "item list"

section \<open>Values shared by the handlers of main.cc\<close>

text \<open>
  The status codes of \<^verbatim>\<open>Net::Http::Code\<close> that main.cc names, with their numbers.
\<close>

datatype Code = Ok | Created | Not_Found | Request_Timeout

fun code_number :: "Code \<Rightarrow> nat" where
  "code_number Ok = 200"
| "code_number Created = 201"
| "code_number Not_Found = 404"
| "code_number Request_Timeout = 408"

datatype Method = Options | Get | Post | Head | Put | Delete | Trace | Connect

text \<open>\<^verbatim>\<open>MIME(Text, Plain)\<close> is the only media type main.cc builds.\<close>

datatype MimeType = Text
datatype MimeSubtype = Plain
datatype Mime = MIME MimeType MimeSubtype

datatype Header = Server string | ContentType Mime

text \<open>
  The failures main.cc can raise: the \<^verbatim>\<open>std::runtime_error\<close> of the /exception route and the
  two exceptions of \<^verbatim>\<open>std::stol\<close>; then the usage error of a response written to
  after it is complete, the failure of a read outside a vector, and the fault of a read
  through a null pointer, which ends the process.
\<close>

datatype error =
    Runtime_Error string
  | Invalid_Argument
  | Out_Of_Range
  | Usage_Error
  | Undefined_Behaviour
  | Null_Dereference

text \<open>
  A handler acts on the objects it is handed only by calling them, so a handler is modelled
  by the calls it makes, in order:
  \<^item> \<open>Arm s\<close>: \<^verbatim>\<open>timeout.arm(std::chrono::seconds(s))\<close>;
  \<^item> \<open>Cout l\<close>: a line written to \<^verbatim>\<open>std::cout\<close>;
  \<^item> \<open>AddHeader h\<close>: \<^verbatim>\<open>response.headers().add<..>(..)\<close>;
  \<^item> \<open>Send c b m\<close>: \<^verbatim>\<open>response.send(c, b, m)\<close>, an omitted body being the empty string and
    an omitted media type \<open>None\<close>;
  \<^item> \<open>Stream c\<close>: \<^verbatim>\<open>response.stream(c)\<close>; \<open>Write s\<close>: \<^verbatim>\<open>stream << s\<close>;
    \<open>Ends\<close>: \<^verbatim>\<open>stream << ends\<close>;
  \<^item> \<open>ServeFile f\<close>: \<^verbatim>\<open>Net::Http::serveFile(response, f)\<close>;
  \<^item> \<open>OutOfRange i\<close>: a read through an iterator at position \<open>i\<close> that is not inside the
    vector.
\<close>

datatype action =
    Arm nat
  | Cout line
  | AddHeader Header
  | Send Code string "Mime option"
  | Stream Code
  | Write string
  | Ends
  | ServeFile string
  | OutOfRange nat

fun is_send :: "action \<Rightarrow> bool" where
  "is_send (Send c b m) = True"
| "is_send a = False"

section \<open>std::to_string on int\<close>

text \<open>The character of a decimal digit, \<open>n < 10\<close>.\<close>

definition digit_char :: "nat \<Rightarrow> char" where
  "digit_char n = ''0123456789'' ! n"

fun nat_digits :: "nat \<Rightarrow> string" where
  "nat_digits n = (if n < 10 then [digit_char n] else nat_digits (n div 10) @ [digit_char (n mod 10)])"

declare nat_digits.simps [simp del]

definition int_to_string :: "int \<Rightarrow> string" where
  "int_to_string i = (if i < 0 then CHR ''-'' # nat_digits (nat (- i)) else nat_digits (nat i))"

text \<open>\<^verbatim>\<open>std::to_string(int)\<close>: the decimal text of the signed reading of the 32 bits.\<close>

definition to_string :: "cint \<Rightarrow> string" where
  "to_string v = int_to_string (sint v)"

section \<open>StatsEndpoint::Metric\<close>

record Metric =
  metric_name :: string
  metric_value :: cint

text \<open>The constructor \<^verbatim>\<open>Metric(std::string name, int initialValue = 1)\<close>.\<close>

definition new_Metric :: "string \<Rightarrow> cint \<Rightarrow> Metric" where
  "new_Metric n initialValue = \<lparr>metric_name = n, metric_value = initialValue\<rparr>"

text \<open>
  \<^verbatim>\<open>int incr(int n = 1)\<close> returns the value it found and leaves the metric with \<open>n\<close> added.
  The addition is that of the 32-bit machine integer (two's complement, wrapping).
\<close>

definition incr :: "Metric \<Rightarrow> cint \<Rightarrow> cint \<times> Metric" where
  "incr metric n = (let old = metric_value metric in (old, metric\<lparr>metric_value := metric_value metric + n\<rparr>))"

section \<open>StatsEndpoint: the metrics vector and its two handlers\<close>

text \<open>
  An iterator into the vector is a position: \<open>0\<close> is \<^verbatim>\<open>begin()\<close>, the length is \<^verbatim>\<open>end()\<close>.
  \<^verbatim>\<open>std::find_if\<close> returns the first position whose element satisfies the predicate, and
  \<^verbatim>\<open>end()\<close> when there is none.
\<close>

fun find_if :: "('a \<Rightarrow> bool) \<Rightarrow> 'a list \<Rightarrow> nat" where
  "find_if p [] = 0"
| "find_if p (x # xs) = (if p x then 0 else Suc (find_if p xs))"

definition end_it :: "'a list \<Rightarrow> nat" where
  "end_it xs = length xs"

text \<open>
  \<^verbatim>\<open>*it\<close> followed by \<^verbatim>\<open>metric.value()\<close>. Inside the vector the read gives the element.
  At \<^verbatim>\<open>end()\<close> there are two cases. The vector only grows, so an empty one has never
  allocated storage: its \<^verbatim>\<open>begin()\<close> and \<^verbatim>\<open>end()\<close> are null, and reading \<^verbatim>\<open>value_\<close> through
  the null iterator faults; nothing after it runs. On a vector that is not empty
  \<^verbatim>\<open>end()\<close> points just behind the last element; the C++ standard gives the read no
  meaning, and the model records the out-of-range read and continues with \<open>past_end\<close>, a
  parameter standing for whatever object the memory behind the last element holds.
\<close>

definition deref :: "Metric \<Rightarrow> Metric list \<Rightarrow> nat \<Rightarrow> error + (action list \<times> Metric)" where
  "deref past_end xs it =
     (if it < length xs then Inr ([], xs ! it)
      else if xs = [] then Inl Null_Dereference
      else Inr ([OutOfRange it], past_end))"

text \<open>
  \<^verbatim>\<open>doRecordMetric\<close>, with \<open>name\<close> the value of \<^verbatim>\<open>request.param(":name")\<close>: returns the
  vector as the handler leaves it and the calls made on the response.
\<close>

definition doRecordMetric :: "Metric list \<Rightarrow> string \<Rightarrow> Metric list \<times> action list" where
  "doRecordMetric metrics name =
     (let it = find_if (\<lambda>metric. metric_name metric = name) metrics in
      if it = end_it metrics then
        (metrics @ [new_Metric name 1], [Send Created [] None])
      else
        (let metric = snd (incr (metrics ! it) 1) in
         (metrics[it := metric], [Send Ok (to_string (metric_value metric)) None])))"

text \<open>
  \<^verbatim>\<open>doGetMetric\<close>: the calls made on the response, and the fault that ended the handler if
  there was one. The \<^verbatim>\<open>if\<close> that sends 404 has no \<^verbatim>\<open>else\<close> and no \<^verbatim>\<open>return\<close>: the two
  statements after it run on both paths.
\<close>

definition doGetMetric :: "Metric \<Rightarrow> Metric list \<Rightarrow> string \<Rightarrow> action list \<times> error option" where
  "doGetMetric past_end metrics name =
     (let it = find_if (\<lambda>metric. metric_name metric = name) metrics;
          not_found = (if it = end_it metrics then [Send Not_Found [] None] else [])
      in case deref past_end metrics it of
           Inl fault \<Rightarrow> (not_found, Some fault)
         | Inr (rd, metric) \<Rightarrow>
             (not_found @ rd @ [Send Ok (to_string (metric_value metric)) None], None))"

text \<open>
  Whether a name has been recorded, and the value a recorded name currently has: that of
  the first metric of that name, the one both handlers find.
\<close>

definition recorded :: "Metric list \<Rightarrow> string \<Rightarrow> bool" where
  "recorded metrics name = (name \<in> set (map metric_name metrics))"

definition current :: "Metric list \<Rightarrow> string \<Rightarrow> cint" where
  "current metrics name = metric_value (metrics ! find_if (\<lambda>metric. metric_name metric = name) metrics)"

text \<open>\<open>n\<close> requests \<^verbatim>\<open>POST /record/name\<close> handled one after the other.\<close>

fun record_n :: "nat \<Rightarrow> Metric list \<Rightarrow> string \<Rightarrow> Metric list" where
  "record_n 0 metrics name = metrics"
| "record_n (Suc n) metrics name = record_n n (fst (doRecordMetric metrics name)) name"

section \<open>MyHandler\<close>

text \<open>What the handler reads of a \<^verbatim>\<open>Net::Http::Request\<close>.\<close>

record Request =
  req_method :: Method
  req_resource :: string
  req_query :: "(string \<times> string) list"
  req_body :: string

text \<open>\<^verbatim>\<open>query.has(k)\<close>: the query string has a parameter named \<open>k\<close>.\<close>

definition has :: "(string \<times> string) list \<Rightarrow> string \<Rightarrow> bool" where
  "has q k = (map_of q k \<noteq> None)"

text \<open>
  \<^verbatim>\<open>MyHandler::onRequest\<close>: the calls the handler makes on its response and timeout objects,
  or the exception it throws. The branches are those of the source, in its order.
\<close>

definition onRequest :: "Request \<Rightarrow> error + action list" where
  "onRequest req =
     (if req_resource req = ''/ping'' then
        (if req_method req = Get then
           Inr ([Arm 2] @
                (if has (req_query req) ''chunked'' then
                   [Cout [Str ''Using chunked encoding''],
                    AddHeader (Server ''lys''),
                    AddHeader (ContentType (MIME Text Plain)),
                    Stream Ok,
                    Write ''PO'',
                    Write ''NG'',
                    Ends]
                 else []))
         else Inr [])
      else if req_resource req = ''/echo'' then
        (if req_method req = Post then
           Inr [Send Ok (req_body req) (Some (MIME Text Plain))]
         else Inr [])
      else if req_resource req = ''/exception'' then
        Inl (Runtime_Error ''Exception thrown in the handler'')
      else if req_resource req = ''/timeout'' then
        Inr [Arm 5]
      else if req_resource req = ''/static'' then
        (if req_method req = Get then Inr [ServeFile ''README.md''] else Inr [])
      else Inr [])"

text \<open>\<^verbatim>\<open>MyHandler::onTimeout\<close>.\<close>

definition onTimeout :: "Request \<Rightarrow> action list" where
  "onTimeout req = [Send Request_Timeout ''Timeout'' None]"

text \<open>The chunks a list of calls writes to a stream, in order.\<close>

fun chunks :: "action list \<Rightarrow> string list" where
  "chunks [] = []"
| "chunks (Write s # as) = s # chunks as"
| "chunks (a # as) = chunks as"

section \<open>Response writer and timeout controller\<close>

text \<open>
  Modelled from the spec: the states of the response writer (section 3, ResponseState) and
  of the timeout controller (section 4.3), whose classes \<^verbatim>\<open>Net::Http::Response\<close> and
  \<^verbatim>\<open>Net::Http::Timeout\<close> are not in src/. \<open>Armed d\<close> carries the deadline.
\<close>

datatype ResponseState = Pending | Sending | Complete

datatype TimeoutState = Unarmed | Armed nat | Fired | Cancelled

text \<open>
  Modelled from the spec: what reaches the transport engine, which is not in src/: a whole
  response, the head of a streamed one, a chunk, the end of the stream, or a file to serve.
\<close>

datatype wire = Full Code string | Head_Of Code | Chunk string | End_Of_Stream | File string

text \<open>
  Modelled from the spec: one request in flight (sections 4.2 to 4.4), the library's
  per-request objects not being in src/: the state of its response writer and of its
  timeout controller, the clock (in seconds), the headers set, what has gone to the
  transport engine, and the failures logged at the dispatch boundary.
\<close>

record Exchange =
  rstate :: ResponseState
  tstate :: TimeoutState
  clock :: nat
  headers :: "Header list"
  sent :: "wire list"
  logged :: "error list"

text \<open>
  Modelled from the spec: the exchange at the start of a dispatch (section 3: the response
  Pending, the timeout handle created unarmed), not in src/.
\<close>

definition fresh :: "nat \<Rightarrow> Exchange" where
  "fresh now = \<lparr>rstate = Pending, tstate = Unarmed, clock = now, headers = [], sent = [], logged = []\<rparr>"

text \<open>
  Modelled from the spec: the cancellation of an armed timeout when the response completes
  (section 4.3, "Normal completion path"), which belongs to the library's Timeout class,
  not in src/. Armed becomes Cancelled; any other state stays.
\<close>

fun cancel :: "TimeoutState \<Rightarrow> TimeoutState" where
  "cancel (Armed d) = Cancelled"
| "cancel t = t"

text \<open>
  Modelled from the spec: \<^verbatim>\<open>Timeout::arm\<close> (section 4.3), not in src/. From Unarmed it
  schedules the timer for now + duration; from any other state it changes nothing (no
  handler of main.cc arms twice).
\<close>

definition arm :: "nat \<Rightarrow> Exchange \<Rightarrow> Exchange" where
  "arm duration x =
     (if tstate x = Unarmed then x\<lparr>tstate := Armed (clock x + duration)\<rparr> else x)"

text \<open>
  Modelled from the spec: \<^verbatim>\<open>Response::send\<close> (section 4.4), not in src/. Single-shot:
  Pending becomes Complete and the armed timeout is cancelled; on a Complete response it is
  a usage error. The spec does not say what a send does on a response that is streaming;
  it is taken as the same misuse.
\<close>

definition send :: "Code \<Rightarrow> string \<Rightarrow> Exchange \<Rightarrow> error + Exchange" where
  "send c b x =
     (if rstate x = Pending then
        Inr (x\<lparr>rstate := Complete, tstate := cancel (tstate x), sent := sent x @ [Full c b]\<rparr>)
      else Inl Usage_Error)"

text \<open>
  Modelled from the spec: the streaming half of the response writer (section 4.4,
  \<^verbatim>\<open>beginStream\<close>, \<^verbatim>\<open>write\<close>, \<^verbatim>\<open>end\<close>) and the rule that headers are set before the
  first byte, not in src/. Serving a file completes the response like a send.
\<close>

fun apply_action :: "action \<Rightarrow> Exchange \<Rightarrow> error + Exchange" where
  "apply_action (Arm d) x = Inr (arm d x)"
| "apply_action (Cout l) x = Inr x"
| "apply_action (AddHeader h) x =
     (if rstate x = Pending then Inr (x\<lparr>headers := headers x @ [h]\<rparr>) else Inl Usage_Error)"
| "apply_action (Send c b m) x = send c b x"
| "apply_action (Stream c) x =
     (if rstate x = Pending then Inr (x\<lparr>rstate := Sending, sent := sent x @ [Head_Of c]\<rparr>)
      else Inl Usage_Error)"
| "apply_action (Write s) x =
     (if rstate x = Sending then Inr (x\<lparr>sent := sent x @ [Chunk s]\<rparr>) else Inl Usage_Error)"
| "apply_action Ends x =
     (if rstate x = Sending then
        Inr (x\<lparr>rstate := Complete, tstate := cancel (tstate x), sent := sent x @ [End_Of_Stream]\<rparr>)
      else Inl Usage_Error)"
| "apply_action (ServeFile f) x =
     (if rstate x = Pending then
        Inr (x\<lparr>rstate := Complete, tstate := cancel (tstate x), sent := sent x @ [File f]\<rparr>)
      else Inl Usage_Error)"
| "apply_action (OutOfRange i) x = Inl Undefined_Behaviour"

text \<open>
  Modelled from the spec: the effect of a handler's calls on the exchange (sections 4.2 and
  7), not in src/. The calls take effect in order; a failure stops the handler, is logged,
  and leaves the exchange as it was at that point.
\<close>

fun run_actions :: "action list \<Rightarrow> Exchange \<Rightarrow> Exchange" where
  "run_actions [] x = x"
| "run_actions (a # as) x =
     (case apply_action a x of
        Inl e \<Rightarrow> x\<lparr>logged := logged x @ [e]\<rparr>
      | Inr x' \<Rightarrow> run_actions as x')"

text \<open>
  Modelled from the spec: the dispatch boundary (section 4.2), not in src/. The handler of
  main.cc is invoked on a fresh exchange at time \<open>now\<close>; an exception it throws is caught and
  logged, and the request is left without a response.
\<close>

definition dispatch :: "nat \<Rightarrow> Request \<Rightarrow> Exchange" where
  "dispatch now req =
     (case onRequest req of
        Inl e \<Rightarrow> (fresh now)\<lparr>logged := [e]\<rparr>
      | Inr as \<Rightarrow> run_actions as (fresh now))"

text \<open>
  Modelled from the spec: the timer (section 4.3), not in src/. When the clock reaches \<open>t\<close>
  with the timeout Armed, its deadline not after \<open>t\<close> and the response not Complete, the
  controller becomes Fired and the timeout callback of main.cc runs on the exchange.
  Otherwise only the clock moves.
\<close>

definition elapse :: "Request \<Rightarrow> nat \<Rightarrow> Exchange \<Rightarrow> Exchange" where
  "elapse req t x =
     (let x1 = x\<lparr>clock := max (clock x) t\<rparr> in
      case tstate x of
        Armed d \<Rightarrow>
          (if d \<le> t \<and> rstate x \<noteq> Complete then run_actions (onTimeout req) (x1\<lparr>tstate := Fired\<rparr>)
           else x1)
      | Unarmed \<Rightarrow> x1
      | Fired \<Rightarrow> x1
      | Cancelled \<Rightarrow> x1)"

text \<open>The whole responses among what went to the transport engine.\<close>

fun responses :: "wire list \<Rightarrow> (Code \<times> string) list" where
  "responses [] = []"
| "responses (Full c b # ws) = (c, b) # responses ws"
| "responses (w # ws) = responses ws"

section \<open>LoadMonitor\<close>

text \<open>Of \<^verbatim>\<open>Net::Tcp::Listener::Load\<close> the monitor reads the field \<^verbatim>\<open>global\<close> only.\<close>

record Load =
  global :: dbl

text \<open>
  The body of the callback given to \<^verbatim>\<open>requestLoad(old).then\<close>, after \<^verbatim>\<open>old = load\<close>: the
  line it writes.
\<close>

definition report :: "Load \<Rightarrow> line" where
  "report load =
     (let global0 = global load;
          global1 = (if dgt global0 (Finite 100) then Finite 100 else global0)
      in if dgt global1 (Finite 1) then [Str ''Global load is '', Dbl global1, Str ''%'']
         else [Str ''Global load is 0%''])"

text \<open>
  What one pass of the \<^verbatim>\<open>while\<close> loop in \<^verbatim>\<open>run\<close> reads from outside: the value of
  \<^verbatim>\<open>shutdown_\<close> at the loop test, the answer of \<^verbatim>\<open>isBound()\<close>, and the load the promise
  of \<^verbatim>\<open>requestLoad\<close> is fulfilled with (\<open>None\<close> when it is not fulfilled).
\<close>

record observation =
  flag :: bool
  bound :: bool
  reply :: "Load option"

datatype monitor_event = RequestLoad Load | Print line | Sleep nat

text \<open>
  \<^verbatim>\<open>LoadMonitor::run\<close> over the observations of its successive passes. The result is the
  events of the passes made and whether \<^verbatim>\<open>run\<close> has returned: with the observations used up
  and the flag never seen set, the loop is still running.
\<close>

fun run_loop :: "nat \<Rightarrow> Load \<Rightarrow> observation list \<Rightarrow> monitor_event list \<times> bool" where
  "run_loop interval old [] = ([], False)"
| "run_loop interval old (ob # obs) =
     (if flag ob then ([], True)
      else if \<not> bound ob then run_loop interval old obs
      else
        (case reply ob of
           None \<Rightarrow>
             (let (evs, returned) = run_loop interval old obs
              in ([RequestLoad old, Sleep interval] @ evs, returned))
         | Some load \<Rightarrow>
             (let (evs, returned) = run_loop interval load obs
              in ([RequestLoad old, Print (report load), Sleep interval] @ evs, returned))))"

text \<open>The events of a single pass that starts with \<open>old\<close> and observes \<open>ob\<close>.\<close>

definition pass :: "nat \<Rightarrow> Load \<Rightarrow> observation \<Rightarrow> monitor_event list" where
  "pass interval old ob = fst (run_loop interval old [ob])"

text \<open>
  \<^verbatim>\<open>LoadMonitor::shutdown\<close> and the destructor, on the flag and on whether a thread exists:
  \<^verbatim>\<open>shutdown\<close> sets the flag; the destructor sets it and, if there is a thread, joins it.
  The second component says whether a join takes place.
\<close>

record LoadMonitor =
  shutdown_flag :: bool
  thread :: bool

definition start :: "LoadMonitor \<Rightarrow> LoadMonitor" where
  "start m = m\<lparr>shutdown_flag := False, thread := True\<rparr>"

definition shutdown :: "LoadMonitor \<Rightarrow> LoadMonitor \<times> bool" where
  "shutdown m = (m\<lparr>shutdown_flag := True\<rparr>, False)"

definition destructor :: "LoadMonitor \<Rightarrow> LoadMonitor \<times> bool" where
  "destructor m = (m\<lparr>shutdown_flag := True\<rparr>, thread m)"

section \<open>main\<close>

text \<open>
  \<^verbatim>\<open>std::stol\<close> in base 10: leading white space is skipped, a sign is optional, the longest
  run of digits is read and the rest of the string ignored. No digit is
  \<^verbatim>\<open>std::invalid_argument\<close>; a value outside the 64-bit \<^verbatim>\<open>long\<close> is \<^verbatim>\<open>std::out_of_range\<close>.
\<close>

definition isspace :: "char \<Rightarrow> bool" where
  "isspace c = (of_char c = (32::nat) \<or> (9 \<le> (of_char c :: nat) \<and> (of_char c :: nat) \<le> 13))"

definition isdigit :: "char \<Rightarrow> bool" where
  "isdigit c = (48 \<le> (of_char c :: nat) \<and> (of_char c :: nat) \<le> 57)"

definition digits_value :: "string \<Rightarrow> int" where
  "digits_value ds = foldl (\<lambda>acc c. 10 * acc + (of_char c - 48)) 0 ds"

definition stol :: "string \<Rightarrow> error + int" where
  "stol s =
     (let s1 = dropWhile isspace s;
          neg = (s1 \<noteq> [] \<and> hd s1 = CHR ''-'');
          s2 = (if s1 \<noteq> [] \<and> (hd s1 = CHR ''-'' \<or> hd s1 = CHR ''+'') then tl s1 else s1);
          ds = takeWhile isdigit s2;
          v = (if neg then - digits_value ds else digits_value ds)
      in if ds = [] then Inl Invalid_Argument
         else if v < - (2 ^ 63) \<or> 2 ^ 63 \<le> v then Inl Out_Of_Range
         else Inr v)"

datatype Host = Ipv4_any

datatype Flag = InstallSignalHandler

datatype Handler = RecordMetric | GetMetric

text \<open>
  What \<^verbatim>\<open>main\<close> has set up when \<^verbatim>\<open>serve()\<close> is entered: the address bound, the options
  \<^verbatim>\<open>StatsEndpoint::init\<close> gives the endpoint, the routes of \<^verbatim>\<open>setupRoutes\<close>, and the lines
  written to \<^verbatim>\<open>std::cout\<close>.
\<close>

record Server_Setup =
  addr_host :: Host
  addr_port :: uint16
  opt_threads :: nat
  opt_flags :: "Flag list"
  routes :: "(Method \<times> string \<times> Handler) list"
  console :: "line list"

text \<open>\<^verbatim>\<open>StatsEndpoint::init\<close> and \<^verbatim>\<open>setupRoutes\<close>, for the address \<^verbatim>\<open>main\<close> built.\<close>

definition init :: "Host \<Rightarrow> uint16 \<Rightarrow> line list \<Rightarrow> Server_Setup" where
  "init h p out =
     \<lparr>addr_host = h, addr_port = p,
      opt_threads = 1, opt_flags = [InstallSignalHandler],
      routes = [(Post, ''/record/:name'', RecordMetric), (Get, ''/value/:name'', GetMetric)],
      console = out\<rparr>"

text \<open>
  \<^verbatim>\<open>main\<close>, with \<open>argv\<close> the argument vector (its length is \<^verbatim>\<open>argc\<close>) and \<open>cores\<close> the
  result of \<^verbatim>\<open>hardware_concurrency()\<close>. A \<^verbatim>\<open>long\<close> assigned to the port is cut to 16 bits,
  one assigned to \<^verbatim>\<open>thr\<close> to 32.
\<close>

definition main_after_args :: "nat \<Rightarrow> uint16 \<Rightarrow> cint \<Rightarrow> Server_Setup" where
  "main_after_args cores port thr =
     init Ipv4_any port
       [[Str ''Cores = '', Size cores], [Str ''Using '', Num thr, Str '' threads'']]"

definition main :: "nat \<Rightarrow> string list \<Rightarrow> error + Server_Setup" where
  "main cores argv =
     (let argc = length argv in
      if 2 \<le> argc then
        (case stol (argv ! 1) of
           Inl e \<Rightarrow> Inl e
         | Inr p \<Rightarrow>
             (if argc = 3 then
                (case stol (argv ! 2) of
                   Inl e \<Rightarrow> Inl e
                 | Inr t \<Rightarrow> Inr (main_after_args cores (word_of_int p) (word_of_int t)))
              else Inr (main_after_args cores (word_of_int p) 2)))
      else Inr (main_after_args cores 9080 2))"

section \<open>Facts about find_if and the metrics vector\<close>

lemma find_if_le: "find_if p xs \<le> length xs"
  by (induction xs) auto

lemma find_if_end: "(find_if p xs = length xs) = (\<forall>x \<in> set xs. \<not> p x)"
  by (induction xs) auto

lemma find_if_hit: "find_if p xs < length xs \<Longrightarrow> p (xs ! find_if p xs)"
  by (induction xs) auto

lemma find_if_append_new:
  "\<forall>x \<in> set xs. \<not> p x \<Longrightarrow> p y \<Longrightarrow> find_if p (xs @ [y]) = length xs"
  by (induction xs) auto

lemma find_if_update:
  "find_if p xs < length xs \<Longrightarrow> p y \<Longrightarrow> find_if p (xs[find_if p xs := y]) = find_if p xs"
  by (induction xs) auto

lemma find_if_absent:
  "\<not> recorded metrics name \<Longrightarrow>
   find_if (\<lambda>metric. metric_name metric = name) metrics = length metrics"
  by (simp add: find_if_end recorded_def) blast

lemma find_if_present:
  assumes "recorded metrics name"
  shows "find_if (\<lambda>metric. metric_name metric = name) metrics < length metrics"
proof -
  from assms have "find_if (\<lambda>metric. metric_name metric = name) metrics \<noteq> length metrics"
    by (auto simp: find_if_end recorded_def)
  with find_if_le [of "\<lambda>metric. metric_name metric = name" metrics] show ?thesis by simp
qed

text \<open>A recorded name is answered once, with 200 and its current value.\<close>

lemma doGetMetric_found:
  "recorded metrics name \<Longrightarrow>
   doGetMetric past_end metrics name = ([Send Ok (to_string (current metrics name)) None], None)"
  using find_if_present [of metrics name]
  by (simp add: doGetMetric_def deref_def current_def end_it_def Let_def)

lemma record_new:
  assumes "\<not> recorded metrics name"
  shows "doRecordMetric metrics name = (metrics @ [new_Metric name 1], [Send Created [] None])"
    and "recorded (fst (doRecordMetric metrics name)) name"
    and "current (fst (doRecordMetric metrics name)) name = 1"
proof -
  have ab: "\<forall>x \<in> set metrics. \<not> metric_name x = name"
    using assms by (auto simp: recorded_def)
  show 1: "doRecordMetric metrics name = (metrics @ [new_Metric name 1], [Send Created [] None])"
    using assms by (simp add: doRecordMetric_def find_if_absent end_it_def)
  show "recorded (fst (doRecordMetric metrics name)) name"
    unfolding 1 by (simp add: recorded_def new_Metric_def)
  have "find_if (\<lambda>metric. metric_name metric = name) (metrics @ [new_Metric name 1]) = length metrics"
    using ab by (intro find_if_append_new) (simp_all add: new_Metric_def)
  then show "current (fst (doRecordMetric metrics name)) name = 1"
    unfolding 1 by (simp add: current_def new_Metric_def)
qed

lemma record_old:
  assumes "recorded metrics name"
  shows "doRecordMetric metrics name =
           (metrics[find_if (\<lambda>metric. metric_name metric = name) metrics :=
              (metrics ! find_if (\<lambda>metric. metric_name metric = name) metrics)
                \<lparr>metric_value := current metrics name + 1\<rparr>],
            [Send Ok (to_string (current metrics name + 1)) None])"
    and "recorded (fst (doRecordMetric metrics name)) name"
    and "current (fst (doRecordMetric metrics name)) name = current metrics name + 1"
    and "incr (metrics ! find_if (\<lambda>metric. metric_name metric = name) metrics) 1 =
           (current metrics name,
            (metrics ! find_if (\<lambda>metric. metric_name metric = name) metrics)
              \<lparr>metric_value := current metrics name + 1\<rparr>)"
proof -
  let ?p = "\<lambda>metric. metric_name metric = name"
  let ?i = "find_if ?p metrics"
  let ?m = "(metrics ! ?i) \<lparr>metric_value := current metrics name + 1\<rparr>"
  have lt: "?i < length metrics" using assms by (rule find_if_present)
  have nm: "metric_name (metrics ! ?i) = name" using find_if_hit [OF lt] .
  show 1: "doRecordMetric metrics name =
           (metrics[?i := ?m], [Send Ok (to_string (current metrics name + 1)) None])"
    using lt by (simp add: doRecordMetric_def incr_def current_def Let_def end_it_def)
  have pm: "?p ?m" using nm by simp
  have upd: "find_if ?p (metrics[?i := ?m]) = ?i"
    using lt pm by (rule find_if_update)
  have "?m \<in> set (metrics[?i := ?m])"
    using lt by (simp add: set_update_memI)
  then have "metric_name ?m \<in> set (map metric_name (metrics[?i := ?m]))"
    by (simp only: set_map) (rule imageI)
  then show "recorded (fst (doRecordMetric metrics name)) name"
    unfolding 1 recorded_def using nm by simp
  show "current (fst (doRecordMetric metrics name)) name = current metrics name + 1"
  proof -
    have "current (metrics[?i := ?m]) name = metric_value (metrics[?i := ?m] ! ?i)"
      unfolding current_def [of "metrics[?i := ?m]"] by (simp only: upd)
    also have "\<dots> = current metrics name + 1" using lt by simp
    finally show ?thesis unfolding 1 by simp
  qed
  show "incr (metrics ! ?i) 1 = (current metrics name, ?m)"
    by (simp add: incr_def current_def)
qed

text \<open>Below \<^verbatim>\<open>INT_MAX\<close> the wrapping addition of 1 is the addition of 1 on the signed value.\<close>

lemma sint_incr:
  fixes v :: cint
  assumes "sint v < 2147483647"
  shows "sint (v + 1) = sint v + 1"
proof -
  have lo: "- (2 ^ 31) \<le> sint v + 1" using sint_ge [of v] by simp
  have hi: "sint v + 1 < 2 ^ 31" using assms by simp
  have "sint (v + 1) = signed_take_bit 31 (sint v + 1)"
    by (simp add: sint_word_ariths)
  also have "\<dots> = sint v + 1" using lo hi by (rule signed_take_bit_int_eq_self)
  finally show ?thesis .
qed

text \<open>
  Handled one after the other, \<open>n + 1\<close> requests \<^verbatim>\<open>POST /record/name\<close> for a name not
  recorded before leave it with the value \<open>n + 1\<close> (as a 32-bit integer).
\<close>

lemma record_n_recorded:
  "recorded metrics name \<Longrightarrow>
   recorded (record_n n metrics name) name \<and>
   current (record_n n metrics name) name = current metrics name + of_nat n"
proof (induction n arbitrary: metrics)
  case 0
  then show ?case by simp
next
  case (Suc n)
  from Suc.prems have r: "recorded (fst (doRecordMetric metrics name)) name"
    and c: "current (fst (doRecordMetric metrics name)) name = current metrics name + 1"
    by (rule record_old(2), rule record_old(3))
  from Suc.IH [OF r] c show ?case by simp
qed

lemma sequential_records:
  assumes "\<not> recorded metrics name"
  shows "current (record_n (Suc n) metrics name) name = of_nat (Suc n)"
proof -
  from assms have r: "recorded (fst (doRecordMetric metrics name)) name"
    and c: "current (fst (doRecordMetric metrics name)) name = 1"
    by (rule record_new(2), rule record_new(3))
  from record_n_recorded [OF r, of n] c show ?thesis by simp
qed

section \<open>GET /value/:name\<close>

text \<open>
  Claim C1, at the request \<^verbatim>\<open>GET /value/misses\<close> on a server that has recorded the one
  metric hits, with value 3. The claim asks for one response, with status 404. The handler
  calls \<^verbatim>\<open>send\<close> with Not_Found, then reads through the end iterator of the vector, then
  calls \<^verbatim>\<open>send\<close> again with Ok and the text of whatever value that read gave; it does not
  fault.
\<close>

theorem doGetMetric_unknown_after_record:
  "doGetMetric past_end [new_Metric ''hits'' 3] ''misses'' =
     ([Send Not_Found [] None, OutOfRange 1, Send Ok (to_string (metric_value past_end)) None],
      None)"
  by (simp add: doGetMetric_def deref_def end_it_def new_Metric_def)

text \<open>
  On a server that has recorded nothing the same request gets its 404, and then the handler
  faults on the null end iterator.
\<close>

lemma doGetMetric_on_empty:
  "doGetMetric past_end [] name = ([Send Not_Found [] None], Some Null_Dereference)"
  by (simp add: doGetMetric_def deref_def end_it_def)

text \<open>
  Claim C9, as stated, at the request \<^verbatim>\<open>GET /value/unknown\<close> on a server that has recorded
  nothing: the name is absent, the 404 is sent, and the read through the null end iterator
  faults, so \<^verbatim>\<open>send\<close> is called once and not a second time.
\<close>

theorem doGetMetric_empty_counterexample:
  "\<not> recorded [] ''unknown'' \<and>
   doGetMetric (new_Metric [] 0) [] ''unknown'' =
     ([Send Not_Found [] None], Some Null_Dereference) \<and>
   length (filter is_send (fst (doGetMetric (new_Metric [] 0) [] ''unknown''))) = 1"
  by (simp add: doGetMetric_def deref_def end_it_def recorded_def)

text \<open>
  Claim C9, amended: in \<^verbatim>\<open>doGetMetric\<close>, for every name absent from the metrics vector, the
  branch that sends 404 does not end the handler: control falls through the \<^verbatim>\<open>if\<close> and the
  end iterator is read. On a vector that is not empty this is a read outside the vector,
  after which \<^verbatim>\<open>send\<close> is called a second time on the same response, with the call of the
  found-name path: two sends, not one. On the empty vector the read faults, and the 404 is
  the only send.
\<close>

theorem doGetMetric_absent_falls_through:
  "\<not> recorded metrics name \<Longrightarrow>
     (metrics \<noteq> [] \<longrightarrow>
        doGetMetric past_end metrics name =
          ([Send Not_Found [] None, OutOfRange (end_it metrics),
            Send Ok (to_string (metric_value past_end)) None], None) \<and>
        length (filter is_send (fst (doGetMetric past_end metrics name))) = 2) \<and>
     (metrics = [] \<longrightarrow>
        doGetMetric past_end metrics name = ([Send Not_Found [] None], Some Null_Dereference) \<and>
        length (filter is_send (fst (doGetMetric past_end metrics name))) = 1)"
  by (simp add: doGetMetric_def deref_def Let_def end_it_def find_if_absent)

theorem doGetMetric_absent_falls_through_witness:
  "\<not> recorded [new_Metric ''a'' 1, new_Metric ''b'' 2] ''c'' \<and>
   doGetMetric (new_Metric [] 7) [new_Metric ''a'' 1, new_Metric ''b'' 2] ''c'' =
     ([Send Not_Found [] None, OutOfRange 2, Send Ok ''7'' None], None) \<and>
   \<not> recorded [] ''c'' \<and>
   doGetMetric (new_Metric [] 7) [] ''c'' = ([Send Not_Found [] None], Some Null_Dereference)"
  using
    doGetMetric_absent_falls_through
      [where metrics = "[new_Metric ''a'' 1, new_Metric ''b'' 2]" and name = "''c''"
        and past_end = "new_Metric [] 7"]
    doGetMetric_absent_falls_through
      [where metrics = "[]" and name = "''c''" and past_end = "new_Metric [] 7"]
  by (simp add: recorded_def new_Metric_def end_it_def to_string_def int_to_string_def
      nat_digits.simps digit_char_def)

section \<open>POST /record/:name\<close>

text \<open>
  Claim C2: for every \<^verbatim>\<open>POST /record/:name\<close>. If the name has not been seen, a metric with
  value 1 is appended and the response is 201 (Created), and a GET of the name that follows
  answers 200 with the text 1. If the name exists, \<^verbatim>\<open>incr\<close> reports the value it found and
  adds 1, the response is 200 with the text of the new value, and a GET of the name that
  follows answers 200 with that same new value. The addition is that of the 32-bit integer;
  below \<^verbatim>\<open>INT_MAX\<close> it is the addition of 1 on the signed value.
\<close>

theorem doRecordMetric_contract:
  "(\<not> recorded metrics name \<longrightarrow>
      doRecordMetric metrics name = (metrics @ [new_Metric name 1], [Send Created [] None]) \<and>
      code_number Created = 201 \<and>
      current (fst (doRecordMetric metrics name)) name = 1 \<and>
      doGetMetric past_end (fst (doRecordMetric metrics name)) name =
        ([Send Ok ''1'' None], None)) \<and>
   (recorded metrics name \<longrightarrow>
      incr (metrics ! find_if (\<lambda>metric. metric_name metric = name) metrics) 1 =
        (current metrics name,
         (metrics ! find_if (\<lambda>metric. metric_name metric = name) metrics)
           \<lparr>metric_value := current metrics name + 1\<rparr>) \<and>
      doRecordMetric metrics name =
        (metrics[find_if (\<lambda>metric. metric_name metric = name) metrics :=
           (metrics ! find_if (\<lambda>metric. metric_name metric = name) metrics)
             \<lparr>metric_value := current metrics name + 1\<rparr>],
         [Send Ok (to_string (current metrics name + 1)) None]) \<and>
      code_number Ok = 200 \<and>
      current (fst (doRecordMetric metrics name)) name = current metrics name + 1 \<and>
      (sint (current metrics name) < 2147483647 \<longrightarrow>
         sint (current metrics name + 1) = sint (current metrics name) + 1) \<and>
      doGetMetric past_end (fst (doRecordMetric metrics name)) name =
        ([Send Ok (to_string (current metrics name + 1)) None], None))"
proof (intro conjI impI)
  assume a: "\<not> recorded metrics name"
  show "doRecordMetric metrics name = (metrics @ [new_Metric name 1], [Send Created [] None])"
    using a by (rule record_new(1))
  show "current (fst (doRecordMetric metrics name)) name = 1"
    using a by (rule record_new(3))
  have "recorded (fst (doRecordMetric metrics name)) name"
    using a by (rule record_new(2))
  then have "doGetMetric past_end (fst (doRecordMetric metrics name)) name =
      ([Send Ok (to_string (current (fst (doRecordMetric metrics name)) name)) None], None)"
    by (rule doGetMetric_found)
  also have "current (fst (doRecordMetric metrics name)) name = 1"
    using a by (rule record_new(3))
  also have "to_string 1 = ''1''"
    by (simp add: to_string_def int_to_string_def nat_digits.simps digit_char_def)
  finally show "doGetMetric past_end (fst (doRecordMetric metrics name)) name =
      ([Send Ok ''1'' None], None)" .
next
  assume a: "recorded metrics name"
  show "incr (metrics ! find_if (\<lambda>metric. metric_name metric = name) metrics) 1 =
        (current metrics name,
         (metrics ! find_if (\<lambda>metric. metric_name metric = name) metrics)
           \<lparr>metric_value := current metrics name + 1\<rparr>)"
    using a by (rule record_old(4))
  show "doRecordMetric metrics name =
        (metrics[find_if (\<lambda>metric. metric_name metric = name) metrics :=
           (metrics ! find_if (\<lambda>metric. metric_name metric = name) metrics)
             \<lparr>metric_value := current metrics name + 1\<rparr>],
         [Send Ok (to_string (current metrics name + 1)) None])"
    using a by (rule record_old(1))
  show "current (fst (doRecordMetric metrics name)) name = current metrics name + 1"
    using a by (rule record_old(3))
  have "recorded (fst (doRecordMetric metrics name)) name"
    using a by (rule record_old(2))
  then have "doGetMetric past_end (fst (doRecordMetric metrics name)) name =
      ([Send Ok (to_string (current (fst (doRecordMetric metrics name)) name)) None], None)"
    by (rule doGetMetric_found)
  also have "current (fst (doRecordMetric metrics name)) name = current metrics name + 1"
    using a by (rule record_old(3))
  finally show "doGetMetric past_end (fst (doRecordMetric metrics name)) name =
        ([Send Ok (to_string (current metrics name + 1)) None], None)" .
next
  assume "sint (current metrics name) < 2147483647"
  then show "sint (current metrics name + 1) = sint (current metrics name) + 1"
    by (rule sint_incr)
qed simp_all

theorem doRecordMetric_contract_witness:
  "\<not> recorded [] ''hits'' \<and>
   doRecordMetric [] ''hits'' = ([new_Metric ''hits'' 1], [Send Created [] None]) \<and>
   recorded [new_Metric ''hits'' 1] ''hits'' \<and>
   sint (current [new_Metric ''hits'' 1] ''hits'') < 2147483647 \<and>
   doRecordMetric [new_Metric ''hits'' 1] ''hits'' = ([new_Metric ''hits'' 2], [Send Ok ''2'' None]) \<and>
   doGetMetric (new_Metric [] 0) (fst (doRecordMetric [new_Metric ''hits'' 1] ''hits'')) ''hits'' =
     ([Send Ok ''2'' None], None)"
  using
    doRecordMetric_contract
      [where metrics = "[]" and name = "''hits''" and past_end = "new_Metric [] 0"]
    doRecordMetric_contract
      [where metrics = "[new_Metric ''hits'' 1]" and name = "''hits''" and past_end = "new_Metric [] 0"]
  by (simp add: recorded_def new_Metric_def current_def to_string_def int_to_string_def
      nat_digits.simps digit_char_def doGetMetric_def deref_def end_it_def)

section \<open>GET /ping\<close>

text \<open>
  Claim C5: for every GET request to /ping whose query has the flag \<^verbatim>\<open>chunked\<close>, the handler
  arms a timeout of 2 seconds, sets the content type text/plain, and streams with status 200
  the chunk PO and then the chunk NG before the end of the stream: the body is PONG, in two
  writes.
\<close>

theorem ping_chunked:
  "req_resource req = ''/ping'' \<Longrightarrow> req_method req = Get \<Longrightarrow> has (req_query req) ''chunked'' \<Longrightarrow>
   (\<exists>calls. onRequest req = Inr calls \<and>
      calls = [Arm 2, Cout [Str ''Using chunked encoding''], AddHeader (Server ''lys''),
               AddHeader (ContentType (MIME Text Plain)), Stream Ok, Write ''PO'', Write ''NG'', Ends] \<and>
      chunks calls = [''PO'', ''NG''] \<and> concat (chunks calls) = ''PONG'' \<and>
      2 \<le> length (chunks calls)) \<and>
   code_number Ok = 200"
  by (simp add: onRequest_def)

theorem ping_chunked_witness:
  "has [(''chunked'', ''1'')] ''chunked'' \<and>
   onRequest \<lparr>req_method = Get, req_resource = ''/ping'', req_query = [(''chunked'', ''1'')], req_body = []\<rparr>
     = Inr [Arm 2, Cout [Str ''Using chunked encoding''], AddHeader (Server ''lys''),
            AddHeader (ContentType (MIME Text Plain)), Stream Ok, Write ''PO'', Write ''NG'', Ends]"
  using ping_chunked [of "\<lparr>req_method = Get, req_resource = ''/ping'',
      req_query = [(''chunked'', ''1'')], req_body = []\<rparr>"]
  by (simp add: has_def)

text \<open>
  Claim C10: for every GET request to /ping the timeout of 2 seconds is armed before the
  flag \<^verbatim>\<open>chunked\<close> is looked at, so a GET without the flag arms it too and makes no other
  call; for every request to /ping with another method the handler arms nothing and
  produces no response.
\<close>

theorem ping_arms_first:
  "req_resource req = ''/ping'' \<Longrightarrow>
   (req_method req = Get \<longrightarrow>
      (\<exists>rest. onRequest req = Inr (Arm 2 # rest)) \<and>
      (\<not> has (req_query req) ''chunked'' \<longrightarrow> onRequest req = Inr [Arm 2])) \<and>
   (req_method req \<noteq> Get \<longrightarrow> onRequest req = Inr [])"
  by (simp add: onRequest_def)

theorem ping_arms_first_witness:
  "\<not> has [] ''chunked'' \<and>
   onRequest \<lparr>req_method = Get, req_resource = ''/ping'', req_query = [], req_body = []\<rparr> = Inr [Arm 2] \<and>
   Post \<noteq> Get \<and>
   onRequest \<lparr>req_method = Post, req_resource = ''/ping'', req_query = [], req_body = ''x''\<rparr> = Inr []"
  using ping_arms_first [of "\<lparr>req_method = Get, req_resource = ''/ping'', req_query = [], req_body = []\<rparr>"]
    ping_arms_first [of "\<lparr>req_method = Post, req_resource = ''/ping'', req_query = [], req_body = ''x''\<rparr>"]
  by (simp add: has_def)

section \<open>The timeout fallback\<close>

text \<open>What dispatch leaves behind when the timeout is armed and the response not complete.\<close>

lemma dispatch_armed:
  "tstate (dispatch now req) = Armed d \<Longrightarrow> rstate (dispatch now req) \<noteq> Complete \<Longrightarrow>
   dispatch now req = (fresh now)\<lparr>tstate := Armed d\<rparr>"
  by (auto simp: dispatch_def onRequest_def fresh_def arm_def send_def split: if_splits)

text \<open>
  Claim C4, as stated, at the request \<^verbatim>\<open>GET /timeout\<close> dispatched at time 0: the handler arms
  the timeout for time 5 and sends nothing, and at time 5 the one fallback response has
  status 408 and the body Timeout, which is not the body Request Timeout of the claim.
\<close>

theorem timeout_body_counterexample:
  "tstate (dispatch 0 \<lparr>req_method = Get, req_resource = ''/timeout'', req_query = [], req_body = []\<rparr>)
     = Armed 5 \<and>
   rstate (dispatch 0 \<lparr>req_method = Get, req_resource = ''/timeout'', req_query = [], req_body = []\<rparr>)
     = Pending \<and>
   responses (sent (elapse \<lparr>req_method = Get, req_resource = ''/timeout'', req_query = [], req_body = []\<rparr> 5
       (dispatch 0 \<lparr>req_method = Get, req_resource = ''/timeout'', req_query = [], req_body = []\<rparr>)))
     = [(Request_Timeout, ''Timeout'')] \<and>
   code_number Request_Timeout = 408 \<and>
   ''Timeout'' \<noteq> ''Request Timeout''"
  by (simp add: dispatch_def onRequest_def fresh_def arm_def elapse_def onTimeout_def send_def)

text \<open>
  Claim C4, amended: for every request whose handler arms a timeout and does not complete a
  response, nothing is sent before the deadline; from the deadline on exactly one response
  has been sent, the fallback with status 408 and the body Timeout, the response is Complete
  and the controller Fired; any later send on the request fails as a usage error, and the
  timer does not fire a second time.
\<close>

theorem timeout_fallback:
  assumes "x = dispatch now req" and "tstate x = Armed d" and "rstate x \<noteq> Complete"
  shows "(t < d \<longrightarrow> sent (elapse req t x) = []) \<and>
         (d \<le> t \<longrightarrow>
            sent (elapse req t x) = [Full Request_Timeout ''Timeout''] \<and>
            code_number Request_Timeout = 408 \<and>
            rstate (elapse req t x) = Complete \<and>
            tstate (elapse req t x) = Fired \<and>
            send c b (elapse req t x) = Inl Usage_Error \<and>
            sent (elapse req t' (elapse req t x)) = [Full Request_Timeout ''Timeout''])"
proof -
  from assms have x: "x = (fresh now)\<lparr>tstate := Armed d\<rparr>"
    using dispatch_armed [of now req d] by simp
  show ?thesis
    unfolding x
    by (simp add: elapse_def fresh_def onTimeout_def send_def Let_def)
qed

theorem timeout_fallback_witness:
  "tstate (dispatch 0 \<lparr>req_method = Get, req_resource = ''/ping'', req_query = [], req_body = []\<rparr>)
     = Armed 2 \<and>
   rstate (dispatch 0 \<lparr>req_method = Get, req_resource = ''/ping'', req_query = [], req_body = []\<rparr>)
     \<noteq> Complete \<and>
   sent (elapse \<lparr>req_method = Get, req_resource = ''/ping'', req_query = [], req_body = []\<rparr> 1
       (dispatch 0 \<lparr>req_method = Get, req_resource = ''/ping'', req_query = [], req_body = []\<rparr>)) = [] \<and>
   sent (elapse \<lparr>req_method = Get, req_resource = ''/ping'', req_query = [], req_body = []\<rparr> 2
       (dispatch 0 \<lparr>req_method = Get, req_resource = ''/ping'', req_query = [], req_body = []\<rparr>))
     = [Full Request_Timeout ''Timeout''] \<and>
   send Ok ''PONG''
     (elapse \<lparr>req_method = Get, req_resource = ''/ping'', req_query = [], req_body = []\<rparr> 2
       (dispatch 0 \<lparr>req_method = Get, req_resource = ''/ping'', req_query = [], req_body = []\<rparr>))
     = Inl Usage_Error"
proof -
  let ?req = "\<lparr>req_method = Get, req_resource = ''/ping'', req_query = [], req_body = []\<rparr>"
  have a: "tstate (dispatch 0 ?req) = Armed 2"
    by (simp add: dispatch_def onRequest_def fresh_def arm_def has_def)
  have r: "rstate (dispatch 0 ?req) \<noteq> Complete"
    by (simp add: dispatch_def onRequest_def fresh_def arm_def has_def)
  from timeout_fallback [OF refl a r, where t = 1 and c = Ok and b = "''PONG''" and t' = 3]
    timeout_fallback [OF refl a r, where t = 2 and c = Ok and b = "''PONG''" and t' = 3] a r
  show ?thesis by simp
qed

section \<open>The load monitor\<close>

text \<open>
  Claim C7: for every pass of the monitor that obtains a load with the raw value g, the
  line written is clamped to 0 to 100: for g at most 1 it is the text with 0%, for g above
  1 and at most 100 it carries g itself, and for g above 100 it carries 100.
\<close>

theorem report_clamp:
  "\<not> flag ob \<Longrightarrow> bound ob \<Longrightarrow> reply ob = Some load \<Longrightarrow> global load = g \<Longrightarrow>
   (dle g (Finite 1) \<longrightarrow>
      pass interval old ob =
        [RequestLoad old, Print [Str ''Global load is 0%''], Sleep interval]) \<and>
   (dgt g (Finite 1) \<and> dle g (Finite 100) \<longrightarrow>
      pass interval old ob =
        [RequestLoad old, Print [Str ''Global load is '', Dbl g, Str ''%''], Sleep interval]) \<and>
   (dgt g (Finite 100) \<longrightarrow>
      pass interval old ob =
        [RequestLoad old, Print [Str ''Global load is '', Dbl (Finite 100), Str ''%''], Sleep interval])"
  by (cases g) (auto simp: pass_def report_def Let_def)

theorem report_clamp_witness:
  "dle (Finite (1 / 2)) (Finite 1) \<and>
   pass 1 \<lparr>global = Finite 0\<rparr> \<lparr>flag = False, bound = True, reply = Some \<lparr>global = Finite (1 / 2)\<rparr>\<rparr>
     = [RequestLoad \<lparr>global = Finite 0\<rparr>, Print [Str ''Global load is 0%''], Sleep 1] \<and>
   dgt (Finite 42) (Finite 1) \<and> dle (Finite 42) (Finite 100) \<and>
   pass 1 \<lparr>global = Finite 0\<rparr> \<lparr>flag = False, bound = True, reply = Some \<lparr>global = Finite 42\<rparr>\<rparr>
     = [RequestLoad \<lparr>global = Finite 0\<rparr>, Print [Str ''Global load is '', Dbl (Finite 42), Str ''%''],
        Sleep 1] \<and>
   dgt PosInf (Finite 100) \<and>
   pass 1 \<lparr>global = Finite 0\<rparr> \<lparr>flag = False, bound = True, reply = Some \<lparr>global = PosInf\<rparr>\<rparr>
     = [RequestLoad \<lparr>global = Finite 0\<rparr>, Print [Str ''Global load is '', Dbl (Finite 100), Str ''%''],
        Sleep 1]"
  using
    report_clamp [where ob = "\<lparr>flag = False, bound = True, reply = Some \<lparr>global = Finite (1 / 2)\<rparr>\<rparr>"
      and load = "\<lparr>global = Finite (1 / 2)\<rparr>" and g = "Finite (1 / 2)" and interval = 1
      and old = "\<lparr>global = Finite 0\<rparr>"]
    report_clamp [where ob = "\<lparr>flag = False, bound = True, reply = Some \<lparr>global = Finite 42\<rparr>\<rparr>"
      and load = "\<lparr>global = Finite 42\<rparr>" and g = "Finite 42" and interval = 1
      and old = "\<lparr>global = Finite 0\<rparr>"]
    report_clamp [where ob = "\<lparr>flag = False, bound = True, reply = Some \<lparr>global = PosInf\<rparr>\<rparr>"
      and load = "\<lparr>global = PosInf\<rparr>" and g = "PosInf" and interval = 1
      and old = "\<lparr>global = Finite 0\<rparr>"]
  by simp

text \<open>A NaN, which none of the three cases covers, is reported as 0%.\<close>

lemma report_NaN: "report \<lparr>global = NaN\<rparr> = [Str ''Global load is 0%'']"
  by (simp add: report_def)

lemma run_loop_sleeps: "Sleep d \<in> set (fst (run_loop i old obs)) \<Longrightarrow> d = i"
  by (induction obs arbitrary: old) (auto simp: split_beta split: option.splits if_splits)

lemma run_loop_returns: "snd (run_loop i old obs) = (\<exists>ob \<in> set obs. flag ob)"
  by (induction obs arbitrary: old) (auto simp: split_beta split: option.splits)

lemma run_loop_prefix:
  "\<forall>p \<in> set pre. \<not> flag p \<Longrightarrow> flag stop \<Longrightarrow>
   run_loop i old (pre @ stop # post) = (fst (run_loop i old pre), True)"
  by (induction pre arbitrary: old) (auto simp: split_beta split: option.splits)

text \<open>
  Claim C8, as stated, at a pass that finds the engine not bound (interval 1): the pass
  performs no sleep at all, so the skipped tick does not keep its sleep interval.
\<close>

theorem skipped_pass_counterexample:
  "\<not> flag \<lparr>flag = False, bound = False, reply = None\<rparr> \<and>
   \<not> bound \<lparr>flag = False, bound = False, reply = None\<rparr> \<and>
   Sleep 1 \<notin> set (pass 1 \<lparr>global = Finite 0\<rparr> \<lparr>flag = False, bound = False, reply = None\<rparr>) \<and>
   pass 1 \<lparr>global = Finite 0\<rparr> \<lparr>flag = False, bound = False, reply = None\<rparr> = []"
  by (simp add: pass_def)

text \<open>
  Claim C8, amended: on every pass of the loop that finds the engine not bound, the tick is
  skipped together with its sleep: the pass does nothing and the loop goes straight back to
  its test. Every sleep the loop does perform lasts the whole interval. The loop runs until
  it reads the shutdown flag set, and returns at that test with every pass begun before it
  run to its end. \<^verbatim>\<open>shutdown\<close> only sets the flag; the destructor sets it and joins the thread
  if there is one.
\<close>

theorem run_loop_contract:
  "(\<not> flag ob \<and> \<not> bound ob \<longrightarrow>
      pass i old ob = [] \<and> run_loop i old (ob # obs) = run_loop i old obs) \<and>
   (Sleep d \<in> set (fst (run_loop i old obs)) \<longrightarrow> d = i) \<and>
   snd (run_loop i old obs) = (\<exists>ob \<in> set obs. flag ob) \<and>
   ((\<forall>p \<in> set pre. \<not> flag p) \<and> flag stop \<longrightarrow>
      run_loop i old (pre @ stop # post) = (fst (run_loop i old pre), True)) \<and>
   shutdown_flag (fst (shutdown m)) \<and> \<not> snd (shutdown m) \<and>
   shutdown_flag (fst (destructor m)) \<and> snd (destructor m) = thread m"
proof (intro conjI impI)
  assume "\<not> flag ob \<and> \<not> bound ob"
  then show "pass i old ob = []" and "run_loop i old (ob # obs) = run_loop i old obs"
    by (simp_all add: pass_def)
next
  assume "Sleep d \<in> set (fst (run_loop i old obs))"
  then show "d = i" by (rule run_loop_sleeps)
next
  show "snd (run_loop i old obs) = (\<exists>ob \<in> set obs. flag ob)" by (rule run_loop_returns)
next
  assume "(\<forall>p \<in> set pre. \<not> flag p) \<and> flag stop"
  then show "run_loop i old (pre @ stop # post) = (fst (run_loop i old pre), True)"
    by (simp add: run_loop_prefix)
qed (simp_all add: shutdown_def destructor_def)

theorem run_loop_contract_witness:
  "run_loop 1 \<lparr>global = Finite 0\<rparr>
     [\<lparr>flag = False, bound = False, reply = None\<rparr>,
      \<lparr>flag = False, bound = True, reply = Some \<lparr>global = Finite 42\<rparr>\<rparr>,
      \<lparr>flag = True, bound = True, reply = None\<rparr>,
      \<lparr>flag = False, bound = True, reply = None\<rparr>]
   = ([RequestLoad \<lparr>global = Finite 0\<rparr>,
       Print [Str ''Global load is '', Dbl (Finite 42), Str ''%''], Sleep 1], True) \<and>
   Sleep 1 \<in> set (fst (run_loop 1 \<lparr>global = Finite 0\<rparr>
     [\<lparr>flag = False, bound = True, reply = Some \<lparr>global = Finite 42\<rparr>\<rparr>,
      \<lparr>flag = True, bound = True, reply = None\<rparr>])) \<and>
   snd (destructor \<lparr>shutdown_flag = False, thread = True\<rparr>)"
  using run_loop_contract
    [where ob = "\<lparr>flag = False, bound = False, reply = None\<rparr>" and i = 1
      and old = "\<lparr>global = Finite 0\<rparr>"
      and obs = "[\<lparr>flag = False, bound = True, reply = Some \<lparr>global = Finite 42\<rparr>\<rparr>,
        \<lparr>flag = True, bound = True, reply = None\<rparr>]"
      and d = 1
      and pre = "[\<lparr>flag = False, bound = False, reply = None\<rparr>,
        \<lparr>flag = False, bound = True, reply = Some \<lparr>global = Finite 42\<rparr>\<rparr>]"
      and stop = "\<lparr>flag = True, bound = True, reply = None\<rparr>"
      and post = "[\<lparr>flag = False, bound = True, reply = None\<rparr>]"
      and m = "\<lparr>shutdown_flag = False, thread = True\<rparr>"]
  by (simp add: report_def)

section \<open>The arguments of main\<close>

text \<open>
  Claim C6, at the invocation \<^verbatim>\<open>./main 9080 4\<close>. The claim asks for the worker pool to have
  the size given on the command line. \<^verbatim>\<open>main\<close> reads 4 into \<^verbatim>\<open>thr\<close> and writes the line
  Using 4 threads, but \<^verbatim>\<open>StatsEndpoint::init\<close> is given no size and configures 1 thread.
\<close>

theorem main_threads_evaluation:
  "main cores [''./main'', ''9080'', ''4''] =
     Inr \<lparr>addr_host = Ipv4_any, addr_port = 9080,
          opt_threads = 1, opt_flags = [InstallSignalHandler],
          routes = [(Post, ''/record/:name'', RecordMetric), (Get, ''/value/:name'', GetMetric)],
          console = [[Str ''Cores = '', Size cores], [Str ''Using '', Num 4, Str '' threads'']]\<rparr>"
  by (simp add: main_def stol_def isspace_def isdigit_def digits_value_def main_after_args_def
      init_def Let_def)

text \<open>Whatever the arguments, an endpoint that \<^verbatim>\<open>main\<close> starts has one thread.\<close>

lemma main_one_thread: "main cores argv = Inr s \<Longrightarrow> opt_threads s = 1"
  by (auto simp: main_def main_after_args_def init_def Let_def split: if_splits sum.splits)

text \<open>With four arguments the second positional argument is not read: \<^verbatim>\<open>thr\<close> stays 2.\<close>

lemma main_extra_argument:
  "console (projr (main cores [''./main'', ''9080'', ''4'', ''x''])) =
     [[Str ''Cores = '', Size cores], [Str ''Using '', Num 2, Str '' threads'']]"
  by (simp add: main_def stol_def isspace_def isdigit_def digits_value_def main_after_args_def
      init_def Let_def)

end
